theory Spec2Isabelle
  imports Complex_Main "HOL-Library.Word"
begin

section \<open>Shared declarations\<close>

text \<open>
  The instruments of the PSLab firmware run on a 16-bit PIC (the peripheral registers
  \<^verbatim>\<open>T5CON\<close>, \<^verbatim>\<open>DMA0CON\<close>, \<^verbatim>\<open>IC1CON1\<close> are \<^verbatim>\<open>uint16_t\<close>, data pointers are cast to
  \<^verbatim>\<open>uint16_t\<close>), whose C \<^verbatim>\<open>int\<close> is 16 bits wide. The fixed-width integers of the source are
  words of the same width.
\<close>

type_synonym u8 = "8 word"
type_synonym u16 = "16 word"
type_synonym u32 = "32 word"

text \<open>
  Modelled from the spec: the enumeration \<^verbatim>\<open>Edge\<close> of \<^verbatim>\<open>types.h\<close>, which is not among the
  sources. The glossary names its four directions.
\<close>

datatype Edge = EDGE_NONE | EDGE_ANY | EDGE_FALLING | EDGE_RISING

text \<open>
  Modelled from the spec: the enumeration \<^verbatim>\<open>Channel\<close> of \<^verbatim>\<open>types.h\<close>. A channel is the
  integer value of the enumerator, as in C: the four channels are the array indices
  0 to 3 (\<^verbatim>\<open>CHANNEL_1\<close> indexes the first gain), \<^verbatim>\<open>CHANNEL_NUMEL\<close> is the size of the
  per-channel arrays, and "no channel" lies outside the index range.
\<close>

type_synonym Channel = int

definition CHANNEL_NONE :: Channel where "CHANNEL_NONE = -1"
definition CHANNEL_1 :: Channel where "CHANNEL_1 = 0"
definition CHANNEL_2 :: Channel where "CHANNEL_2 = 1"
definition CHANNEL_3 :: Channel where "CHANNEL_3 = 2"
definition CHANNEL_4 :: Channel where "CHANNEL_4 = 3"
definition CHANNEL_NUMEL :: int where "CHANNEL_NUMEL = 4"

text \<open>
  Modelled from the spec: the response codes of \<^verbatim>\<open>commands.h\<close>. The spec's outcome
  \<open>Busy\<close> is the code \<^verbatim>\<open>FAILED\<close> that \<^verbatim>\<open>LA_capture\<close> returns on a locked instrument,
  \<open>InvalidArgument\<close> is \<^verbatim>\<open>ARGUMENT_ERROR\<close>.
\<close>

datatype response_t = SUCCESS | ARGUMENT_ERROR | FAILED

text \<open>
  Modelled from the spec: the macro \<^verbatim>\<open>BUFFER_SIZE\<close> of \<^verbatim>\<open>helpers/buffer.h\<close>, the number of
  16-bit words of the sample buffer. The driver's header comment gives the capacity:
  up to 10k timestamps across all four channels.
\<close>

definition BUFFER_SIZE :: nat where "BUFFER_SIZE = 10000"

text \<open>
  An address handed to the DMA capability: \<^verbatim>\<open>NULL\<close>, or \<^verbatim>\<open>BUFFER + k\<close>, the k-th word of
  the sample buffer.
\<close>

datatype address = NULL | BUFFER nat

datatype DMA_Source = DMA_SOURCE_ADC | DMA_SOURCE_IC

datatype IC_Timer = IC_TIMER_TMR5 | IC_TIMER_PERIPHERAL

datatype TMR_Timer = TMR_TIMER_1 | TMR_TIMER_2 | TMR_TIMER_3 | TMR_TIMER_4 | TMR_TIMER_5

datatype ADC_Resolution = ADC_RESOLUTION_10BIT | ADC_RESOLUTION_12BIT

text \<open>
  The calls into the peripheral capability layer, in the order in which a function makes
  them. The register-level drivers are external: a call is recorded, and what a call
  reads from the hardware is an argument of the function that makes it.
  \<open>IC_BUF_read c\<close> is the discarded read of \<^verbatim>\<open>ICxBUF\<close> (x = c + 1).
\<close>

datatype event =
    IC_reset Channel
  | IC_setup Channel IC_Timer
  | IC_start Channel Edge
  | IC_start_fast Channel Edge
  | IC_BUF_read Channel
  | IC_interrupt_enable Channel
  | IC_interrupt_disable Channel
  | DMA_reset Channel
  | DMA_setup Channel u16 address DMA_Source
  | DMA_start_fast Channel
  | DMA_interrupt_enable Channel
  | DMA_get_progress Channel
  | TMR_reset TMR_Timer
  | TMR5_start_fast
  | TMR_set_period TMR_Timer u16
  | TMR_set_prescaler TMR_Timer nat
  | CN_reset
  | CN_interrupt_enable Channel
  | PINS_get_la_states
  | BUFFER_set address u16 nat
  | ADC_reset
  | ADC_setup u8 ADC_Resolution
  | ADC_start
  | ADC_enable_interrupt
  | ADC_disable_interrupt
  | UART1_write_scaling Channel
  | UART1_write_offset Channel
  | UART1_write_str string

text \<open>What a command writes to the host over the serial line.\<close>

datatype uart_out = Write u8 | WriteInt u16 | write_u32 u32

section \<open>Logic analyzer\<close>

record LogicAnalyzerState =
  locked :: bool
  configured_channels :: u8
  active_channels :: u8
  capture_edge :: Edge
  trigger_edge :: Edge
  initial_states :: u8
  events_per_channel :: u16
  initial_addresses :: "Channel \<Rightarrow> address"
  final_progress :: "Channel \<Rightarrow> u16"

definition g_TIMER :: TMR_Timer where "g_TIMER = TMR_TIMER_5"

definition g_STATE_DEFAULT :: LogicAnalyzerState where
  "g_STATE_DEFAULT =
     \<lparr>locked = False, configured_channels = 0, active_channels = 0,
      capture_edge = EDGE_NONE, trigger_edge = EDGE_NONE, initial_states = 0,
      events_per_channel = 0, initial_addresses = (\<lambda>_. NULL),
      final_progress = (\<lambda>_. 0)\<rparr>"

text \<open>
  The offset, in words, of the region of channel \<open>i\<close> out of \<open>num_channels\<close>:
  \<^verbatim>\<open>BUFFER + i * BUFFER_SIZE / num_channels\<close>. The product is formed first and then
  divided; for \<open>i\<close> below 4 it stays below \<open>2 ^ 15\<close>.
\<close>

definition channel_offset :: "nat \<Rightarrow> nat \<Rightarrow> nat" where
  "channel_offset i num_channels = i * BUFFER_SIZE div num_channels"

subsection \<open>Reading out the timestamps\<close>

text \<open>
  The inner loop of \<^verbatim>\<open>LA_get_timestamps\<close> over the raw values of one channel:
  \<^verbatim>\<open>timedelta = timestamp - previous; previous = timestamp\<close>, in \<^verbatim>\<open>uint16_t\<close>.
\<close>

fun timedeltas :: "u16 \<Rightarrow> u16 list \<Rightarrow> u16 list" where
  "timedeltas previous [] = []"
| "timedeltas previous (timestamp # rest) =
     (timestamp - previous) # timedeltas timestamp rest"

text \<open>
  The words \<open>address[0], ..., address[events - 1]\<close> of the sample buffer \<open>mem\<close>, which
  maps a word offset into \<^verbatim>\<open>BUFFER\<close> to its content. Reading through \<^verbatim>\<open>NULL\<close> or past
  the end of the buffer is undefined in C: \<open>None\<close>.
\<close>

definition raw_timestamps :: "(nat \<Rightarrow> u16) \<Rightarrow> address \<Rightarrow> u16 \<Rightarrow> u16 list option" where
  "raw_timestamps mem a events =
     (case a of
        NULL \<Rightarrow> if events = 0 then Some [] else None
      | BUFFER k \<Rightarrow>
          if k + unat events \<le> BUFFER_SIZE
          then Some (map (\<lambda>j. mem (k + j)) [0..<unat events])
          else None)"

text \<open>The body of the loop over the configured channels, for channel \<open>i\<close>.\<close>

definition channel_timestamps ::
  "(nat \<Rightarrow> u16) \<Rightarrow> LogicAnalyzerState \<Rightarrow> nat \<Rightarrow> uart_out list option" where
  "channel_timestamps mem s i =
     (if int i < CHANNEL_NUMEL then
        (let events = final_progress s (int i) in
         case raw_timestamps mem (initial_addresses s (int i)) events of
           None \<Rightarrow> None
         | Some raw \<Rightarrow> Some (WriteInt events # map WriteInt (timedeltas 0 raw)))
      else None)"

fun concat_options :: "'a list option list \<Rightarrow> 'a list option" where
  "concat_options [] = Some []"
| "concat_options (None # _) = None"
| "concat_options (Some xs # rest) =
     (case concat_options rest of None \<Rightarrow> None | Some ys \<Rightarrow> Some (xs @ ys))"

text \<open>
  \<^verbatim>\<open>LA_get_timestamps\<close>. \<open>FCY\<close> is the instruction clock frequency, a macro that is not
  among the sources; the prescaler is the constant 1.
\<close>

definition LA_get_timestamps ::
  "u32 \<Rightarrow> (nat \<Rightarrow> u16) \<Rightarrow> LogicAnalyzerState \<Rightarrow> (response_t \<times> uart_out list) option" where
  "LA_get_timestamps FCY mem s =
     (let prescaler = 1 :: u32;
          scaling = FCY div prescaler;
          channels = configured_channels s
      in case concat_options (map (channel_timestamps mem s) [0..<unat channels]) of
           None \<Rightarrow> None
         | Some deltas \<Rightarrow>
             Some (SUCCESS,
                   Write (initial_states s) # write_u32 scaling # Write channels # deltas))"

subsection \<open>The fire sequence\<close>

text \<open>
  The \<^verbatim>\<open>switch\<close> of \<^verbatim>\<open>trigger\<close> on the number of configured channels. Its cases have
  no \<^verbatim>\<open>break\<close>: control enters at the label of the channel count and falls through
  to \<^verbatim>\<open>case 1\<close>. \<^verbatim>\<open>ICx\<close> and \<^verbatim>\<open>DMA(x-1)\<close> belong to channel \<open>x - 1\<close>.
\<close>

definition case_1 :: "Edge \<Rightarrow> event list" where
  "case_1 e = [IC_start_fast CHANNEL_1 e, IC_BUF_read CHANNEL_1, DMA_start_fast CHANNEL_1]"

definition case_2 :: "Edge \<Rightarrow> event list" where
  "case_2 e =
     [IC_start_fast CHANNEL_2 e, IC_BUF_read CHANNEL_2, DMA_start_fast CHANNEL_2] @ case_1 e"

definition case_3 :: "Edge \<Rightarrow> event list" where
  "case_3 e =
     [IC_start_fast CHANNEL_3 e, IC_BUF_read CHANNEL_3, DMA_start_fast CHANNEL_3] @ case_2 e"

definition case_4 :: "Edge \<Rightarrow> event list" where
  "case_4 e =
     [IC_start_fast CHANNEL_4 e, IC_BUF_read CHANNEL_4, DMA_start_fast CHANNEL_4] @ case_3 e"

definition switch_configured_channels :: "u8 \<Rightarrow> Edge \<Rightarrow> event list" where
  "switch_configured_channels n e =
     (if n = 4 then case_4 e
      else if n = 3 then case_3 e
      else if n = 2 then case_2 e
      else if n = 1 then case_1 e
      else [])"

text \<open>
  \<^verbatim>\<open>trigger\<close> of the logic analyzer. \<open>pins\<close> is what \<^verbatim>\<open>PINS_get_la_states\<close> returns when
  it is called.
\<close>

definition la_trigger ::
  "Channel \<Rightarrow> u8 \<Rightarrow> LogicAnalyzerState \<Rightarrow> LogicAnalyzerState \<times> event list" where
  "la_trigger channel pins s =
     (let critical =
            switch_configured_channels (configured_channels s) (capture_edge s)
            @ [TMR5_start_fast, PINS_get_la_states];
          s1 = s\<lparr>initial_states := pins\<rparr>;
          s2 = s1\<lparr>active_channels := configured_channels s1\<rparr>;
          disable =
            (if trigger_edge s2 = EDGE_RISING \<or> trigger_edge s2 = EDGE_FALLING
             then [IC_interrupt_disable channel]
             else if trigger_edge s2 = EDGE_ANY then [CN_reset]
             else [])
      in (s2, critical @ [TMR_set_period g_TIMER 0] @ disable))"

subsection \<open>Completion\<close>

text \<open>
  \<^verbatim>\<open>cleanup_callback\<close>, called by the DMA interrupt of \<open>channel\<close>. The decrement is on
  \<^verbatim>\<open>uint8_t\<close>. Writing \<^verbatim>\<open>final_progress[channel]\<close> outside the array is undefined in C:
  \<open>None\<close>.
\<close>

definition cleanup_callback ::
  "Channel \<Rightarrow> LogicAnalyzerState \<Rightarrow> (LogicAnalyzerState \<times> event list) option" where
  "cleanup_callback channel s =
     (if 0 \<le> channel \<and> channel < CHANNEL_NUMEL then
        (let s1 = s\<lparr>final_progress := (final_progress s)(channel := events_per_channel s)\<rparr>;
             active = active_channels s1 - 1;
             s2 = s1\<lparr>active_channels := active\<rparr>;
             released = [DMA_reset channel, IC_reset channel]
         in if active = 0
            then Some (s2\<lparr>locked := False\<rparr>, released @ [TMR_reset g_TIMER])
            else Some (s2, released))
      else None)"

text \<open>
  The DMA interrupts of a list of channels, one after the other; the calls of all of them
  in order.
\<close>

fun cleanup_callbacks ::
  "Channel list \<Rightarrow> LogicAnalyzerState \<Rightarrow> (LogicAnalyzerState \<times> event list) option" where
  "cleanup_callbacks [] s = Some (s, [])"
| "cleanup_callbacks (c # cs) s =
     (case cleanup_callback c s of
        None \<Rightarrow> None
      | Some (s1, evs1) \<Rightarrow>
          (case cleanup_callbacks cs s1 of
             None \<Rightarrow> None
           | Some (s2, evs2) \<Rightarrow> Some (s2, evs1 @ evs2)))"

subsection \<open>Setup and arming\<close>

definition timer2ictsel :: "TMR_Timer \<Rightarrow> IC_Timer" where
  "timer2ictsel timer =
     (case timer of TMR_TIMER_5 \<Rightarrow> IC_TIMER_TMR5 | _ \<Rightarrow> IC_TIMER_PERIPHERAL)"

text \<open>
  The body of the loop of \<^verbatim>\<open>setup\<close> for channel \<open>i\<close>. \<^verbatim>\<open>BUFFER_set\<close> passes \<open>events\<close>
  as the size of a \<^verbatim>\<open>memset\<close>.
\<close>

definition la_setup_channel ::
  "u8 \<Rightarrow> u16 \<Rightarrow> nat \<Rightarrow> LogicAnalyzerState \<times> event list \<Rightarrow> LogicAnalyzerState \<times> event list"
  where
  "la_setup_channel num_chans events i = (\<lambda>(s, evs).
     (let a = BUFFER (channel_offset i (unat num_chans))
      in (s\<lparr>initial_addresses := (initial_addresses s)(int i := a)\<rparr>,
          evs @ [IC_reset (int i), DMA_reset (int i),
                 DMA_setup (int i) events a DMA_SOURCE_IC,
                 BUFFER_set a 0 (unat events),
                 DMA_interrupt_enable (int i),
                 IC_setup (int i) (timer2ictsel g_TIMER)])))"

text \<open>
  \<^verbatim>\<open>setup\<close> of the logic analyzer. Its only caller, \<^verbatim>\<open>LA_capture\<close>, passes a channel
  count of at most \<^verbatim>\<open>CHANNEL_NUMEL\<close>, so the loop writes inside \<^verbatim>\<open>initial_addresses\<close>.
\<close>

definition la_setup ::
  "u8 \<Rightarrow> u16 \<Rightarrow> Edge \<Rightarrow> LogicAnalyzerState \<Rightarrow> LogicAnalyzerState \<times> event list" where
  "la_setup num_chans events edge s =
     fold (la_setup_channel num_chans events) [0..<unat num_chans]
       (s\<lparr>locked := True, configured_channels := num_chans,
          capture_edge := edge, events_per_channel := events\<rparr>, [])"

text \<open>\<^verbatim>\<open>arm\<close> of the logic analyzer; \<open>pins\<close> is passed on to an immediate \<^verbatim>\<open>trigger\<close>.\<close>

definition la_arm ::
  "Channel \<Rightarrow> Edge \<Rightarrow> u8 \<Rightarrow> LogicAnalyzerState \<Rightarrow> LogicAnalyzerState \<times> event list" where
  "la_arm channel edge pins s =
     (let s1 = s\<lparr>trigger_edge := edge\<rparr>;
          evs = [TMR_set_period g_TIMER 1]
      in if channel = CHANNEL_NONE \<or> edge = EDGE_NONE then
           (case la_trigger CHANNEL_NONE pins s1 of (s2, evs2) \<Rightarrow> (s2, evs @ evs2))
         else if edge = EDGE_ANY then
           (s1, evs @ [CN_reset, CN_interrupt_enable channel])
         else (s1, evs @ [IC_start channel edge, IC_interrupt_enable channel]))"

subsection \<open>Commands\<close>

text \<open>
  \<^verbatim>\<open>LA_capture\<close>; the five arguments are what the command reads from the host.
  \<^verbatim>\<open>events * num_channels\<close> multiplies a \<^verbatim>\<open>uint16_t\<close> by a \<^verbatim>\<open>uint8_t\<close>: with a 16-bit
  \<^verbatim>\<open>int\<close> both operands are converted to \<^verbatim>\<open>unsigned int\<close>, and the product is taken
  modulo \<open>2 ^ 16\<close> before it is compared with \<^verbatim>\<open>BUFFER_SIZE\<close>.
\<close>

definition LA_capture ::
  "u8 \<Rightarrow> u16 \<Rightarrow> Edge \<Rightarrow> Channel \<Rightarrow> Edge \<Rightarrow> u8 \<Rightarrow> LogicAnalyzerState
   \<Rightarrow> response_t \<times> LogicAnalyzerState \<times> event list" where
  "LA_capture num_chans events edge trigger_pin trig_edge pins s =
     (if locked s then (FAILED, s, [])
      else if num_chans = 0 then (ARGUMENT_ERROR, s, [])
      else if uint num_chans > CHANNEL_NUMEL then (ARGUMENT_ERROR, s, [])
      else if unat (events * (ucast num_chans :: u16)) > BUFFER_SIZE
        then (ARGUMENT_ERROR, s, [])
      else if edge = EDGE_NONE then (ARGUMENT_ERROR, s, [])
      else
        (case la_setup num_chans events edge s of (s1, evs1) \<Rightarrow>
           (case la_arm trigger_pin trig_edge pins s1 of (s2, evs2) \<Rightarrow>
              (SUCCESS, s2, evs1 @ evs2))))"

text \<open>
  The body of the loop of \<^verbatim>\<open>LA_stop\<close> for channel \<open>i\<close>; \<open>dma i\<close> is what
  \<^verbatim>\<open>DMA_get_progress(i)\<close> returns when it is called.
\<close>

definition la_stop_channel ::
  "(Channel \<Rightarrow> u16) \<Rightarrow> nat \<Rightarrow> LogicAnalyzerState \<times> event list
   \<Rightarrow> LogicAnalyzerState \<times> event list" where
  "la_stop_channel dma i = (\<lambda>(s, evs).
     (s\<lparr>final_progress := (final_progress s)(int i := dma (int i))\<rparr>,
      evs @ [IC_reset (int i), DMA_get_progress (int i), DMA_reset (int i)]))"

definition LA_stop ::
  "(Channel \<Rightarrow> u16) \<Rightarrow> LogicAnalyzerState \<Rightarrow> response_t \<times> LogicAnalyzerState \<times> event list"
  where
  "LA_stop dma s =
     (if \<not> locked s then (SUCCESS, s, [])
      else
        (case fold (la_stop_channel dma) [0..<nat CHANNEL_NUMEL]
                (s, [CN_reset, TMR_reset g_TIMER]) of
           (s1, evs) \<Rightarrow> (SUCCESS, s1\<lparr>locked := False\<rparr>, evs)))"

text \<open>
  \<^verbatim>\<open>LA_get_progress\<close>. A completed capture reads \<^verbatim>\<open>final_progress[i]\<close> for every
  configured channel; more than \<^verbatim>\<open>CHANNEL_NUMEL\<close> of them would read outside the array.
\<close>

definition LA_get_progress ::
  "(Channel \<Rightarrow> u16) \<Rightarrow> LogicAnalyzerState \<Rightarrow> (response_t \<times> uart_out list) option" where
  "LA_get_progress dma s =
     (let channels = configured_channels s;
          done = \<not> locked s
      in if done \<and> uint channels > CHANNEL_NUMEL then None
         else Some (SUCCESS,
                Write channels # Write (if done then 1 else 0) #
                map (\<lambda>i. WriteInt (if done then final_progress s (int i) else dma (int i)))
                  [0..<unat channels]))"

section \<open>Oscilloscope\<close>

record OscilloscopeState =
  num_channels :: u8
  ch0map :: nat
  resolution :: u16
  gains :: "Channel \<Rightarrow> u16"

record TriggerState =
  channel :: Channel
  level :: u16
  waiting :: u16
  timeout :: u16
  ready :: bool
  polarity :: bool

text \<open>
  \<^verbatim>\<open>g_state\<close> and \<^verbatim>\<open>g_trigger_state\<close> of the oscilloscope have static storage and no
  initialiser: they start out all zero.
\<close>

definition g_state_initial :: OscilloscopeState where
  "g_state_initial = \<lparr>num_channels = 0, ch0map = 0, resolution = 0, gains = (\<lambda>_. 0)\<rparr>"

definition g_trigger_state_initial :: TriggerState where
  "g_trigger_state_initial =
     \<lparr>channel = 0, level = 0, waiting = 0, timeout = 0, ready = False, polarity = False\<rparr>"

subsection \<open>Sample clock\<close>

text \<open>The enumerators of \<^verbatim>\<open>TMR_Prescaler\<close> and the division factor each one selects.\<close>

definition TMR_PRESCALER_1 :: nat where "TMR_PRESCALER_1 = 0"
definition TMR_PRESCALER_8 :: nat where "TMR_PRESCALER_8 = 1"
definition TMR_PRESCALER_64 :: nat where "TMR_PRESCALER_64 = 2"
definition TMR_PRESCALER_256 :: nat where "TMR_PRESCALER_256 = 3"

definition prescaler_factor :: "nat \<Rightarrow> nat option" where
  "prescaler_factor p =
     (if p = TMR_PRESCALER_1 then Some 1
      else if p = TMR_PRESCALER_8 then Some 8
      else if p = TMR_PRESCALER_64 then Some 64
      else if p = TMR_PRESCALER_256 then Some 256
      else None)"

text \<open>
  The loop \<^verbatim>\<open>while (delay > UINT16_MAX) { ++prescaler; delay /= 8; }\<close> of \<^verbatim>\<open>setup\<close>, on
  the \<^verbatim>\<open>uint32_t\<close> tick count.
\<close>

function scale_delay :: "nat \<Rightarrow> u32 \<Rightarrow> nat \<times> u32" where
  "scale_delay prescaler delay =
     (if delay > 65535 then scale_delay (prescaler + 1) (delay div 8)
      else (prescaler, delay))"
  by pat_completeness auto
termination
proof (relation "measure (\<lambda>(p, d). unat d)")
  show "wf (measure (\<lambda>(p, d). unat d))" by simp
next
  fix prescaler :: nat and delay :: u32
  assume "65535 < delay"
  then have "0 < unat delay"
    by (simp add: word_less_nat_alt)
  then have "unat delay div 8 < unat delay" by simp
  then show "((prescaler + 1, delay div 8), prescaler, delay) \<in> measure (\<lambda>(p, d). unat d)"
    by (simp add: unat_div)
qed

declare scale_delay.simps [simp del]

subsection \<open>Setup\<close>

text \<open>
  The body of the per-channel loop of \<^verbatim>\<open>setup\<close>. The scaling and the offset sent to the
  host are floating-point values; the calls are recorded without their payload.
\<close>

definition osc_setup_channel :: "u8 \<Rightarrow> u16 \<Rightarrow> nat \<Rightarrow> event list" where
  "osc_setup_channel num_chans samples i =
     [DMA_reset (int i),
      DMA_setup (int i) samples (BUFFER (channel_offset i (unat num_chans))) DMA_SOURCE_ADC,
      UART1_write_scaling (int i), UART1_write_offset (int i), UART1_write_str ''V'']"

text \<open>
  \<^verbatim>\<open>setup\<close> of the oscilloscope. Of the floating-point \<open>timegap\<close> the function uses the
  comparison \<^verbatim>\<open>timegap >= 8\<close> (\<open>slow_sampling\<close>) and the tick count
  \<^verbatim>\<open>(uint32_t)(timegap * FCY)\<close> (\<open>ticks\<close>); both are arguments here. The resolution
  \<^verbatim>\<open>1 << (use_12bit ? 12 : 10)\<close> is a local constant of the function, used for the
  scaling sent to the host; the only fields of \<^verbatim>\<open>g_state\<close> that the function assigns are
  the four gains.
\<close>

definition osc_setup ::
  "u8 \<Rightarrow> u16 \<Rightarrow> bool \<Rightarrow> u32 \<Rightarrow> u16 \<Rightarrow> u16 \<Rightarrow> OscilloscopeState
   \<Rightarrow> OscilloscopeState \<times> event list" where
  "osc_setup num_chans samples slow_sampling ticks ch1_gain ch2_gain gs =
     (let gs1 = gs\<lparr>gains := (gains gs)(CHANNEL_1 := ch1_gain, CHANNEL_2 := ch2_gain,
                                        CHANNEL_3 := 1, CHANNEL_4 := 1)\<rparr>;
          single_channel = (num_chans = 1);
          use_12bit = (slow_sampling \<and> single_channel);
          adc = [ADC_reset,
                 ADC_setup num_chans
                   (if use_12bit then ADC_RESOLUTION_12BIT else ADC_RESOLUTION_10BIT),
                 ADC_start]
      in case scale_delay TMR_PRESCALER_1 ticks of (prescaler, delay) \<Rightarrow>
           (gs1,
            adc
            @ [TMR_reset g_TIMER, TMR_set_prescaler g_TIMER prescaler,
               TMR_set_period g_TIMER (ucast delay)]
            @ concat (map (osc_setup_channel num_chans samples) [0..<unat num_chans])))"

subsection \<open>Trigger\<close>

definition clamp :: "int \<Rightarrow> int \<Rightarrow> int \<Rightarrow> int" where
  "clamp v lo hi = max lo (min hi v)"

text \<open>Conversion of a floating-point value to an integer type: towards zero.\<close>

definition truncate :: "rat \<Rightarrow> int" where
  "truncate y = (if 0 \<le> y then \<lfloor>y\<rfloor> else \<lceil>y\<rceil>)"

text \<open>
  \<^verbatim>\<open>arm\<close> of the oscilloscope.
  \<^item> \<open>x\<close> is the value of the floating-point expression
    \<^verbatim>\<open>(trigger_voltage - offset) / range\<close>, where range and offset are those of the trigger
    channel's pin divided by its gain. A finite floating-point value is a rational, and
    its product with the resolution is exact when the resolution is 0 or a power of two.
  \<^item> The product is converted to \<^verbatim>\<open>int16_t\<close>; a value outside the range of that type
    makes the conversion undefined: \<open>None\<close>.
  \<^item> \<^verbatim>\<open>resolution - 1\<close> is computed in \<^verbatim>\<open>unsigned int\<close> (16 bits) and passed as \<^verbatim>\<open>int32_t\<close>;
    the result of \<^verbatim>\<open>clamp\<close> is converted to \<^verbatim>\<open>uint16_t\<close>.
  \<^item> \<open>sample\<close> is the content of \<^verbatim>\<open>*ADC_p_BUFFERS[trigger_channel]\<close> when it is read.
  \<^item> For a directed edge the source assigns \<^verbatim>\<open>trigger == EDGE_RISING\<close> to the polarity,
    which compares the handler \<^verbatim>\<open>trigger\<close>, not \<open>trigger_dir\<close>, with the enumerator;
    \<open>trigger_is_rising\<close> is the value of that comparison.
\<close>

definition osc_arm ::
  "Channel \<Rightarrow> rat \<Rightarrow> Edge \<Rightarrow> u16 \<Rightarrow> u16 \<Rightarrow> bool \<Rightarrow> OscilloscopeState \<Rightarrow> TriggerState
   \<Rightarrow> (TriggerState \<times> event list) option" where
  "osc_arm trigger_channel x trigger_dir trigger_timeout sample trigger_is_rising gs ts =
     (let res = resolution gs;
          lvl = truncate (x * of_nat (unat res))
      in if lvl < - 32768 \<or> 32767 < lvl then None
         else
           (let ts1 = ts\<lparr>channel := trigger_channel, waiting := 0,
                         timeout := trigger_timeout, ready := False,
                         level := word_of_int (clamp lvl 1 (uint (res - 1)))\<rparr>;
                ts2 = (if trigger_dir = EDGE_ANY
                       then ts1\<lparr>polarity := sample < level ts1, ready := True\<rparr>
                       else ts1\<lparr>polarity := trigger_is_rising\<rparr>)
            in Some (ts2, [ADC_enable_interrupt])))"

text \<open>The \<^verbatim>\<open>switch\<close> of \<^verbatim>\<open>trigger\<close> on \<^verbatim>\<open>g_state.num_channels\<close>, with fall-through.\<close>

definition switch_num_channels :: "u8 \<Rightarrow> event list" where
  "switch_num_channels n =
     (if n = 4 then [DMA_start_fast 3, DMA_start_fast 2, DMA_start_fast 1, DMA_start_fast 0]
      else if n = 3 then [DMA_start_fast 2, DMA_start_fast 1, DMA_start_fast 0]
      else if n = 2 then [DMA_start_fast 1, DMA_start_fast 0]
      else if n = 1 then [DMA_start_fast 0]
      else [])"

text \<open>
  \<^verbatim>\<open>trigger\<close> of the oscilloscope, the handler of the converter's interrupt. \<open>sample\<close> is
  the content of \<^verbatim>\<open>*ADC_p_BUFFERS[ts.channel]\<close>. The handler works on \<open>ts\<close>, a local
  copy of \<^verbatim>\<open>g_trigger_state\<close> (\<^verbatim>\<open>struct TriggerState ts = g_trigger_state;\<close>), and never
  assigns to \<^verbatim>\<open>g_trigger_state\<close>. The result is the local flag \<open>triggered\<close>, the local
  copy on return, the global trigger state on return and the calls made.
\<close>

definition osc_trigger ::
  "u16 \<Rightarrow> OscilloscopeState \<Rightarrow> TriggerState
   \<Rightarrow> bool \<times> TriggerState \<times> TriggerState \<times> event list" where
  "osc_trigger sample gs g_trigger_state =
     (let ts = g_trigger_state;
          ts = ts\<lparr>waiting := waiting ts + 1\<rparr>;
          triggered = (waiting ts > timeout ts);
          sample_polarity = (sample \<ge> level ts);
          polarity_equal = (polarity ts = sample_polarity);
          ts = ts\<lparr>ready := ready ts \<or> \<not> polarity_equal\<rparr>;
          triggered = (triggered \<or> (ready ts \<and> polarity_equal))
      in (triggered, ts, g_trigger_state,
          if triggered then switch_num_channels (num_channels gs) @ [ADC_disable_interrupt]
          else []))"

text \<open>
  The interrupts of a sequence of samples, while the interrupt is enabled: evaluation
  stops at the first sample that triggers, since the handler then disables the
  interrupt. The result is the flags of the evaluations made and the global trigger
  state after them.
\<close>

fun osc_triggers ::
  "u16 list \<Rightarrow> OscilloscopeState \<Rightarrow> TriggerState \<Rightarrow> bool list \<times> TriggerState" where
  "osc_triggers [] gs g = ([], g)"
| "osc_triggers (sample # rest) gs g =
     (case osc_trigger sample gs g of
        (triggered, ts, g1, evs) \<Rightarrow>
          if triggered then ([True], g1)
          else (case osc_triggers rest gs g1 of (flags, g2) \<Rightarrow> (False # flags, g2)))"

section \<open>Buffer regions and sample inputs\<close>

text \<open>
  The region of the sample buffer that a \<^verbatim>\<open>DMA_setup\<close> call hands to a channel: the
  channel, the offset of the first word and the number of words.
\<close>

fun dma_setup_region :: "event \<Rightarrow> (Channel \<times> nat \<times> nat) list" where
  "dma_setup_region (DMA_setup c count (BUFFER k) src) = [(c, k, unat count)]"
| "dma_setup_region _ = []"

definition dma_regions :: "event list \<Rightarrow> (Channel \<times> nat \<times> nat) list" where
  "dma_regions evs = concat (map dma_setup_region evs)"

definition region_words :: "nat \<Rightarrow> nat \<Rightarrow> nat set" where
  "region_words k count = {k ..< k + count}"

text \<open>
  The regions as the specification describes them: channel \<open>i\<close> of \<open>n\<close> starts at offset
  \<open>i * (BUFFER_SIZE / n)\<close> and spans the requested number of words.
\<close>

definition claimed_regions :: "u8 \<Rightarrow> u16 \<Rightarrow> (Channel \<times> nat \<times> nat) list" where
  "claimed_regions num_chans events =
     map (\<lambda>i. (int i, i * (BUFFER_SIZE div unat num_chans), unat events))
       [0..<unat num_chans]"

text \<open>Pin levels, a DMA progress and a buffer content for the concrete sessions below.\<close>

definition idle_pins :: u8 where "idle_pins = 0"

definition progress_3 :: "Channel \<Rightarrow> u16" where "progress_3 c = 3"

definition mem_100_150_400 :: "nat \<Rightarrow> u16" where
  "mem_100_150_400 k =
     (if k = 0 then 100 else if k = 1 then 150 else if k = 2 then 400 else 0)"

text \<open>
  The instrument right after the command \<open>capture(2, 10, RISING, NONE, NONE)\<close> on the idle
  instrument: the trigger has fired and both channels are capturing.
\<close>

definition capturing_2 :: LogicAnalyzerState where
  "capturing_2 =
     fst (snd (LA_capture 2 10 EDGE_RISING CHANNEL_NONE EDGE_NONE idle_pins g_STATE_DEFAULT))"

text \<open>A completed capture of three events on one channel.\<close>

definition captured_3 :: LogicAnalyzerState where
  "captured_3 =
     g_STATE_DEFAULT\<lparr>configured_channels := 1, events_per_channel := 3,
       initial_addresses := (initial_addresses g_STATE_DEFAULT)(0 := BUFFER 0),
       final_progress := (final_progress g_STATE_DEFAULT)(0 := 3)\<rparr>"

section \<open>Theorems\<close>

lemma timedeltas_length: "length (timedeltas p ts) = length ts"
  by (induction ts arbitrary: p) simp_all

lemma timedeltas_nth:
  "j < length ts \<Longrightarrow>
   timedeltas p ts ! j = ts ! j - (if j = 0 then p else ts ! (j - 1))"
proof (induction ts arbitrary: p j)
  case Nil
  then show ?case by simp
next
  case (Cons t ts)
  show ?case
  proof (cases j)
    case 0
    then show ?thesis by simp
  next
    case (Suc k)
    with Cons.prems have k: "k < length ts" by simp
    from Cons.IH [OF k, of t] Suc show ?thesis
      by (cases k) simp_all
  qed
qed

subsection \<open>Timestamps\<close>

lemma raw_captured_3:
  "raw_timestamps mem_100_150_400 (initial_addresses captured_3 (int 0))
     (final_progress captured_3 (int 0)) = Some [100, 150, 400]"
  by (simp add: raw_timestamps_def captured_3_def mem_100_150_400_def BUFFER_SIZE_def
      upt_rec)

text \<open>
  C8: for a channel with a non-empty sequence of captured raw timestamps,
  \<^verbatim>\<open>LA_get_timestamps\<close> sends the number of events and then the consecutive differences:
  the first is the first raw value minus 0, every later one is the raw value minus the raw
  value before it (in 16-bit arithmetic). The raw values 100, 150, 400 give 100, 50, 250.
\<close>

theorem get_timestamps_deltas:
  assumes "int i < CHANNEL_NUMEL"
    and "raw_timestamps mem (initial_addresses s (int i)) (final_progress s (int i)) = Some raw"
    and "raw \<noteq> []"
  shows "channel_timestamps mem s i =
           Some (WriteInt (final_progress s (int i)) # map WriteInt (timedeltas 0 raw))
         \<and> length (timedeltas 0 raw) = length raw
         \<and> timedeltas 0 raw ! 0 = raw ! 0 - 0
         \<and> (\<forall>j. 0 < j \<and> j < length raw \<longrightarrow> timedeltas 0 raw ! j = raw ! j - raw ! (j - 1))
         \<and> timedeltas 0 [100, 150, 400] = [100, 50, 250]"
proof -
  from assms(3) have pos: "0 < length raw" by simp
  have "channel_timestamps mem s i =
          Some (WriteInt (final_progress s (int i)) # map WriteInt (timedeltas 0 raw))"
    using assms(1,2) by (simp add: channel_timestamps_def)
  moreover have "timedeltas 0 raw ! 0 = raw ! 0 - 0"
    using timedeltas_nth [OF pos, of 0] by simp
  moreover have
    "\<forall>j. 0 < j \<and> j < length raw \<longrightarrow> timedeltas 0 raw ! j = raw ! j - raw ! (j - 1)"
    using timedeltas_nth [of _ raw 0] by simp
  ultimately show ?thesis
    by (simp add: timedeltas_length)
qed

theorem get_timestamps_deltas_witness:
  "channel_timestamps mem_100_150_400 captured_3 0 =
     Some [WriteInt 3, WriteInt 100, WriteInt 50, WriteInt 250]
   \<and> LA_get_timestamps 64000000 mem_100_150_400 captured_3 =
     Some (SUCCESS, [Write 0, write_u32 64000000, Write 1,
                     WriteInt 3, WriteInt 100, WriteInt 50, WriteInt 250])"
proof -
  have a: "int 0 < CHANNEL_NUMEL" by (simp add: CHANNEL_NUMEL_def)
  have c: "[100, 150, 400 :: u16] \<noteq> []" by simp
  have fp: "final_progress captured_3 0 = 3" by (simp add: captured_3_def)
  from get_timestamps_deltas [OF a raw_captured_3 c]
  have one: "channel_timestamps mem_100_150_400 captured_3 0 =
     Some [WriteInt 3, WriteInt 100, WriteInt 50, WriteInt 250]"
    by (simp add: fp)
  have cc: "configured_channels captured_3 = 1" "initial_states captured_3 = 0"
    by (simp_all add: captured_3_def g_STATE_DEFAULT_def)
  show ?thesis
    using one by (simp add: LA_get_timestamps_def cc)
qed

subsection \<open>The fire sequence\<close>

text \<open>
  C1: the specification, like the comment at the head of \<^verbatim>\<open>trigger\<close>, demands that all
  edge detectors are started first, then the clock TMR5, then the DMA movers, and that the
  pins are read last. The \<^verbatim>\<open>switch\<close> starts the DMA mover of a channel right after that
  channel's detector: with two configured channels DMA1 runs before the detector of
  channel 1 is started, and both movers run before the clock.
\<close>

theorem fire_sequence_order_violated:
  "snd (la_trigger CHANNEL_NONE idle_pins
          (g_STATE_DEFAULT\<lparr>locked := True, configured_channels := 2,
                            capture_edge := EDGE_RISING, events_per_channel := 10\<rparr>)) =
     [IC_start_fast CHANNEL_2 EDGE_RISING, IC_BUF_read CHANNEL_2, DMA_start_fast CHANNEL_2,
      IC_start_fast CHANNEL_1 EDGE_RISING, IC_BUF_read CHANNEL_1, DMA_start_fast CHANNEL_1,
      TMR5_start_fast, PINS_get_la_states, TMR_set_period TMR_TIMER_5 0]"
  by (simp add: la_trigger_def switch_configured_channels_def case_2_def case_1_def
      g_TIMER_def g_STATE_DEFAULT_def)

subsection \<open>Sample clock of the oscilloscope\<close>

text \<open>
  C9: the loop of \<^verbatim>\<open>setup\<close> divides the tick count by 8 at every step, also at the step
  from the prescaler 64 to the prescaler 256, and it does not stop at the last
  prescaler. For 4194304 ticks it ends with the prescaler 256 and the period 8192, which
  is half the requested time; for 33554432 ticks it ends with the value 4, which is no
  enumerator of \<^verbatim>\<open>TMR_Prescaler\<close>.
\<close>

theorem prescaler_escalation_mismatch:
  "scale_delay TMR_PRESCALER_1 4194304 = (TMR_PRESCALER_256, 8192)
   \<and> prescaler_factor TMR_PRESCALER_256 = Some 256
   \<and> (256 :: nat) * 8192 = 2097152
   \<and> scale_delay TMR_PRESCALER_1 33554432 = (4, 8192)
   \<and> prescaler_factor 4 = None"
  by (simp add: scale_delay.simps TMR_PRESCALER_1_def TMR_PRESCALER_8_def
      TMR_PRESCALER_64_def TMR_PRESCALER_256_def prescaler_factor_def)

subsection \<open>Trigger of the oscilloscope\<close>

text \<open>
  C7: \<^verbatim>\<open>arm\<close> reads the resolution from \<^verbatim>\<open>g_state.resolution\<close>, which \<^verbatim>\<open>setup\<close> never
  assigns. After a two-channel setup the converter runs at 10 bits (resolution 1024) and
  the field is still 0: a trigger voltage at full scale (\<open>x = 1\<close>, level 1024 before
  clamping, 1023 after) and one at half scale (\<open>x = 1/2\<close>, level 512) are both stored as
  level 1.
\<close>

theorem trigger_level_not_quantized:
  "resolution (fst (osc_setup 2 100 False 1000 1 1 g_state_initial)) = 0
   \<and> ADC_setup 2 ADC_RESOLUTION_10BIT
       \<in> set (snd (osc_setup 2 100 False 1000 1 1 g_state_initial))
   \<and> map_option (level \<circ> fst)
       (osc_arm CHANNEL_1 1 EDGE_RISING 100 0 False
          (fst (osc_setup 2 100 False 1000 1 1 g_state_initial)) g_trigger_state_initial)
     = Some 1
   \<and> map_option (level \<circ> fst)
       (osc_arm CHANNEL_1 (1 / 2) EDGE_RISING 100 0 False
          (fst (osc_setup 2 100 False 1000 1 1 g_state_initial)) g_trigger_state_initial)
     = Some 1"
  by (simp add: osc_setup_def osc_arm_def g_state_initial_def g_trigger_state_initial_def
      truncate_def clamp_def TMR_PRESCALER_1_def scale_delay.simps)

text \<open>
  C2: the handler increments and latches in a local copy of the trigger state. An
  any-edge trigger armed with timeout 2 while the sample is below the level, followed by
  three samples that stay below: no evaluation triggers, also not the third, and
  \<open>waiting\<close> is 0 after all of them.
\<close>

theorem trigger_waiting_not_persistent:
  "osc_arm CHANNEL_1 1 EDGE_ANY 2 0 False g_state_initial g_trigger_state_initial =
     Some (\<lparr>channel = CHANNEL_1, level = 1, waiting = 0, timeout = 2, ready = True,
            polarity = True\<rparr>, [ADC_enable_interrupt])
   \<and> osc_triggers [0, 0, 0] g_state_initial
       \<lparr>channel = CHANNEL_1, level = 1, waiting = 0, timeout = 2, ready = True,
        polarity = True\<rparr> =
     ([False, False, False],
      \<lparr>channel = CHANNEL_1, level = 1, waiting = 0, timeout = 2, ready = True,
       polarity = True\<rparr>)"
  by (simp add: osc_arm_def osc_trigger_def g_state_initial_def g_trigger_state_initial_def
      truncate_def clamp_def)

subsection \<open>Admission of a capture\<close>

lemma capturing_2_eq:
  "capturing_2 =
     \<lparr>locked = True, configured_channels = 2, active_channels = 2,
      capture_edge = EDGE_RISING, trigger_edge = EDGE_NONE, initial_states = 0,
      events_per_channel = 10,
      initial_addresses = (\<lambda>_. NULL)(0 := BUFFER 0, 1 := BUFFER 5000),
      final_progress = (\<lambda>_. 0)\<rparr>"
  by (simp add: capturing_2_def LA_capture_def la_setup_def la_setup_channel_def la_arm_def
      la_trigger_def g_STATE_DEFAULT_def CHANNEL_NUMEL_def BUFFER_SIZE_def channel_offset_def
      upt_rec Let_def CHANNEL_NONE_def idle_pins_def)

text \<open>
  C3: a capture request on a locked instrument returns \<^verbatim>\<open>FAILED\<close> (the outcome \<open>Busy\<close>),
  leaves the state as it is and makes no call; and \<^verbatim>\<open>FAILED\<close> is returned in no other
  case, so the outcome is distinct from success and from an invalid argument.
\<close>

theorem capture_busy:
  "(locked s \<longrightarrow>
      LA_capture num_chans events edge trigger_pin trig_edge pins s = (FAILED, s, []))
   \<and> (fst (LA_capture num_chans events edge trigger_pin trig_edge pins s) = FAILED
        \<longleftrightarrow> locked s)"
  by (simp add: LA_capture_def split: prod.splits)

theorem capture_busy_witness:
  "locked capturing_2
   \<and> LA_capture 1 5 EDGE_ANY CHANNEL_NONE EDGE_NONE idle_pins capturing_2
       = (FAILED, capturing_2, [])"
proof -
  have l: "locked capturing_2" by (simp add: capturing_2_eq)
  with capture_busy [of capturing_2 1 5 EDGE_ANY CHANNEL_NONE EDGE_NONE idle_pins]
  show ?thesis by simp
qed

text \<open>
  C4: the product \<^verbatim>\<open>events * num_channels\<close> is computed in 16 bits. The request for
  2 channels of 32768 events needs 65536 words; the product wraps to 0, the request is
  accepted, the instrument is locked and the DMA of channel 1 is set up for 32768 words
  from offset 5000 of the 10000-word buffer.
\<close>

theorem capture_accepts_wrapped_product:
  "fst (LA_capture 2 32768 EDGE_RISING CHANNEL_NONE EDGE_NONE idle_pins g_STATE_DEFAULT)
     = SUCCESS
   \<and> locked (fst (snd (LA_capture 2 32768 EDGE_RISING CHANNEL_NONE EDGE_NONE idle_pins
                          g_STATE_DEFAULT)))
   \<and> DMA_setup 1 32768 (BUFFER 5000) DMA_SOURCE_IC
       \<in> set (snd (snd (LA_capture 2 32768 EDGE_RISING CHANNEL_NONE EDGE_NONE idle_pins
                          g_STATE_DEFAULT)))
   \<and> BUFFER_SIZE < unat (32768 :: u16) * unat (2 :: u8)"
  by (simp add: LA_capture_def la_setup_def la_setup_channel_def la_arm_def la_trigger_def
      g_STATE_DEFAULT_def CHANNEL_NUMEL_def BUFFER_SIZE_def channel_offset_def upt_rec
      Let_def CHANNEL_NONE_def)

subsection \<open>Buffer regions\<close>

lemma la_setup_regions:
  assumes "num_chans \<in> {1, 2, 3, 4}"
  shows "dma_regions (snd (la_setup num_chans events edge s)) = claimed_regions num_chans events"
proof -
  from assms consider "num_chans = 1" | "num_chans = 2" | "num_chans = 3" | "num_chans = 4"
    by auto
  then show ?thesis
  proof cases
    case 1
    then show ?thesis
      by (simp add: la_setup_def la_setup_channel_def dma_regions_def claimed_regions_def
      channel_offset_def BUFFER_SIZE_def upt_rec Let_def)
  next
    case 2
    then show ?thesis
      by (simp add: la_setup_def la_setup_channel_def dma_regions_def claimed_regions_def
      channel_offset_def BUFFER_SIZE_def upt_rec Let_def)
  next
    case 3
    then show ?thesis
      by (simp add: la_setup_def la_setup_channel_def dma_regions_def claimed_regions_def
      channel_offset_def BUFFER_SIZE_def upt_rec Let_def)
  next
    case 4
    then show ?thesis
      by (simp add: la_setup_def la_setup_channel_def dma_regions_def claimed_regions_def
      channel_offset_def BUFFER_SIZE_def upt_rec Let_def)
  qed
qed

lemma osc_setup_regions:
  assumes "num_chans \<in> {1, 2, 3, 4}"
  shows "dma_regions (snd (osc_setup num_chans events slow ticks g1 g2 gs))
         = claimed_regions num_chans events"
proof -
  obtain p d where pd: "scale_delay TMR_PRESCALER_1 ticks = (p, d)"
    by (cases "scale_delay TMR_PRESCALER_1 ticks")
  from assms consider "num_chans = 1" | "num_chans = 2" | "num_chans = 3" | "num_chans = 4"
    by auto
  then show ?thesis
  proof cases
    case 1
    then show ?thesis
      by (simp add: osc_setup_def osc_setup_channel_def dma_regions_def claimed_regions_def
        channel_offset_def BUFFER_SIZE_def upt_rec Let_def pd)
  next
    case 2
    then show ?thesis
      by (simp add: osc_setup_def osc_setup_channel_def dma_regions_def claimed_regions_def
        channel_offset_def BUFFER_SIZE_def upt_rec Let_def pd)
  next
    case 3
    then show ?thesis
      by (simp add: osc_setup_def osc_setup_channel_def dma_regions_def claimed_regions_def
        channel_offset_def BUFFER_SIZE_def upt_rec Let_def pd)
  next
    case 4
    then show ?thesis
      by (simp add: osc_setup_def osc_setup_channel_def dma_regions_def claimed_regions_def
        channel_offset_def BUFFER_SIZE_def upt_rec Let_def pd)
  qed
qed

lemma regions_inside:
  assumes "num_chans \<in> {1, 2, 3, 4 :: u8}"
    and "unat events * unat num_chans \<le> BUFFER_SIZE"
    and "i < unat num_chans"
  shows "region_words (i * (BUFFER_SIZE div unat num_chans)) (unat events) \<subseteq> {0 ..< BUFFER_SIZE}"
proof -
  from assms(1) consider "num_chans = 1" | "num_chans = 2" | "num_chans = 3" | "num_chans = 4"
    by auto
  then have "i * (BUFFER_SIZE div unat num_chans) + unat events \<le> BUFFER_SIZE"
    using assms(2,3) by cases (simp_all add: BUFFER_SIZE_def)
  then show ?thesis
    by (auto simp add: region_words_def)
qed

lemma regions_disjoint:
  assumes "num_chans \<in> {1, 2, 3, 4 :: u8}"
    and "unat events * unat num_chans \<le> BUFFER_SIZE"
    and "i < j" and "j < unat num_chans"
  shows "region_words (i * (BUFFER_SIZE div unat num_chans)) (unat events)
         \<inter> region_words (j * (BUFFER_SIZE div unat num_chans)) (unat events) = {}"
proof -
  from assms(1) consider "num_chans = 1" | "num_chans = 2" | "num_chans = 3" | "num_chans = 4"
    by auto
  then have "i * (BUFFER_SIZE div unat num_chans) + unat events
             \<le> j * (BUFFER_SIZE div unat num_chans)"
    using assms(2,3,4) by cases (simp_all add: BUFFER_SIZE_def)
  then show ?thesis
    by (auto simp add: region_words_def)
qed

text \<open>
  C10: for 1 to 4 channels and \<open>e\<close> words per channel with \<open>e * n \<le> BUFFER_SIZE\<close>, the
  setup of the logic analyzer and the setup of the oscilloscope both hand channel \<open>i\<close>
  the region that starts at offset \<open>i * (BUFFER_SIZE / n)\<close> and spans \<open>e\<close> words; every
  region lies inside the buffer and any two of them are disjoint.
\<close>

theorem channel_regions_disjoint:
  assumes "num_chans \<in> {1, 2, 3, 4}"
    and "unat events * unat num_chans \<le> BUFFER_SIZE"
  shows "dma_regions (snd (la_setup num_chans events edge s))
           = claimed_regions num_chans events
         \<and> dma_regions (snd (osc_setup num_chans events slow ticks g1 g2 gs))
           = claimed_regions num_chans events
         \<and> (\<forall>i < unat num_chans.
              region_words (i * (BUFFER_SIZE div unat num_chans)) (unat events)
              \<subseteq> {0 ..< BUFFER_SIZE})
         \<and> (\<forall>i j. i < j \<and> j < unat num_chans \<longrightarrow>
              region_words (i * (BUFFER_SIZE div unat num_chans)) (unat events)
              \<inter> region_words (j * (BUFFER_SIZE div unat num_chans)) (unat events) = {})"
  using la_setup_regions [OF assms(1)] osc_setup_regions [OF assms(1)]
    regions_inside [OF assms] regions_disjoint [OF assms]
  by simp

theorem channel_regions_disjoint_witness:
  "dma_regions (snd (la_setup 3 3333 EDGE_RISING g_STATE_DEFAULT))
     = [(0, 0, 3333), (1, 3333, 3333), (2, 6666, 3333)]
   \<and> dma_regions (snd (osc_setup 3 3333 False 1000 1 1 g_state_initial))
     = [(0, 0, 3333), (1, 3333, 3333), (2, 6666, 3333)]
   \<and> region_words 6666 3333 \<subseteq> {0 ..< BUFFER_SIZE}
   \<and> region_words 3333 3333 \<inter> region_words 6666 3333 = {}"
proof -
  have a: "(3 :: u8) \<in> {1, 2, 3, 4}" by simp
  have b: "unat (3333 :: u16) * unat (3 :: u8) \<le> BUFFER_SIZE"
    by (simp add: BUFFER_SIZE_def)
  have c: "claimed_regions 3 3333 = [(0, 0, 3333), (1, 3333, 3333), (2, 6666, 3333)]"
    by (simp add: claimed_regions_def BUFFER_SIZE_def upt_rec)
  from channel_regions_disjoint [OF a b, of EDGE_RISING g_STATE_DEFAULT False 1000 1 1
      g_state_initial]
  have r: "dma_regions (snd (la_setup 3 3333 EDGE_RISING g_STATE_DEFAULT))
           = claimed_regions 3 3333"
    "dma_regions (snd (osc_setup 3 3333 False 1000 1 1 g_state_initial))
           = claimed_regions 3 3333"
    "\<forall>i < unat (3 :: u8).
              region_words (i * (BUFFER_SIZE div unat (3 :: u8))) (unat (3333 :: u16))
              \<subseteq> {0 ..< BUFFER_SIZE}"
    "\<forall>i j. i < j \<and> j < unat (3 :: u8) \<longrightarrow>
              region_words (i * (BUFFER_SIZE div unat (3 :: u8))) (unat (3333 :: u16))
              \<inter> region_words (j * (BUFFER_SIZE div unat (3 :: u8))) (unat (3333 :: u16))
              = {}"
    by simp_all
  have in2: "region_words 6666 3333 \<subseteq> {0 ..< BUFFER_SIZE}"
    using r(3) [rule_format, of 2] by (simp add: BUFFER_SIZE_def)
  have dis: "region_words 3333 3333 \<inter> region_words 6666 3333 = {}"
    using r(4) [rule_format, of 1 2] by (simp add: BUFFER_SIZE_def)
  from r(1,2) c in2 dis show ?thesis by simp
qed

end
